theory Spec2Isabelle
  imports Complex_Main "HOL-Library.Word" "HOL-Library.AList"
begin

section \<open>JavaScript values\<close>

text \<open>
  A JavaScript string is a sequence of UTF-16 code units. The Korean labels of the
  program lie in the Basic Multilingual Plane, one code unit per syllable, and are
  written below by their code points. \<open>ascii\<close> turns an ASCII literal into code units.
\<close>

type_synonym code_unit = "16 word"
type_synonym jsstring = "code_unit list"

definition ascii :: "string \<Rightarrow> jsstring" where
  "ascii s = map of_char s"

text \<open>
  A JavaScript number as the program can meet it: a finite double, given by its exact
  rational value, or one of the two infinities. \<open>JSON.parse\<close> yields an infinity for a
  numeral too large for a double, such as \<open>1e400\<close>, and never yields \<open>NaN\<close>. Which
  rational a numeral is rounded to is \<open>JSON.parse\<close>'s business; the sign of zero is not
  modelled.
\<close>

datatype jsnumber =
    Finite rat
  | PosInfinity
  | NegInfinity

text \<open>
  The values \<open>JSON.parse\<close> produces, with \<open>undefined\<close> added for a property that is
  absent. An object is the list of its own properties; \<open>map_of\<close> reads one, and the
  program never observes their order.
\<close>

datatype jsval =
    JUndefined
  | JNull
  | JBool bool
  | JNum jsnumber
  | JStr jsstring
  | JArr "jsval list"
  | JObj "(jsstring \<times> jsval) list"

text \<open>What a \<open>throw\<close> carries: \<open>new Error(message)\<close>, the \<open>TypeError\<close> of a property read on
  \<open>null\<close> or \<open>undefined\<close>, the \<open>SyntaxError\<close> of \<open>JSON.parse\<close>, and whatever the
  remote service's client library throws (network failure, HTTP error).\<close>

datatype js_error =
    Error jsstring
  | TypeError
  | SyntaxError
  | ApiFailure

text \<open>\<open>ToBoolean\<close>: the truthiness that \<open>!x\<close> and \<open>x && y\<close> test.\<close>

fun truthy :: "jsval \<Rightarrow> bool" where
  "truthy JUndefined = False"
| "truthy JNull = False"
| "truthy (JBool b) = b"
| "truthy (JNum n) = (n \<noteq> Finite 0)"
| "truthy (JStr s) = (s \<noteq> [])"
| "truthy (JArr xs) = True"
| "truthy (JObj kvs) = True"

text \<open>
  The member access \<open>v.name\<close>, for the names the program reads (\<open>foodName\<close>, \<open>reason\<close>,
  \<open>familiarity\<close>, \<open>condition\<close>, \<open>temperature\<close>). None of them is a property of
  \<open>Object.prototype\<close>, \<open>Array.prototype\<close> or of a primitive's wrapper, so only an own
  property of an object is ever found; on \<open>null\<close> and \<open>undefined\<close> the access throws.
\<close>

definition field :: "(jsstring \<times> jsval) list \<Rightarrow> jsstring \<Rightarrow> jsval" where
  "field kvs name = (case map_of kvs name of None \<Rightarrow> JUndefined | Some v \<Rightarrow> v)"

fun member :: "jsval \<Rightarrow> jsstring \<Rightarrow> js_error + jsval" where
  "member JUndefined name = Inl TypeError"
| "member JNull name = Inl TypeError"
| "member (JObj kvs) name = Inr (field kvs name)"
| "member v name = Inr JUndefined"

text \<open>The decimal numeral of an array index, as a property name.\<close>

fun index_key :: "nat \<Rightarrow> jsstring" where
  "index_key n =
     (if n < 10 then [of_nat (48 + n)]
      else index_key (n div 10) @ [of_nat (48 + n mod 10)])"

text \<open>
  The own enumerable properties that an object spread \<open>{...v}\<close> copies: the properties of
  an object, the elements of an array and the code units of a string under their indices,
  nothing for the other primitives.
\<close>

fun own_props :: "jsval \<Rightarrow> (jsstring \<times> jsval) list" where
  "own_props (JObj kvs) = kvs"
| "own_props (JArr xs) = map (\<lambda>(i, x). (index_key i, x)) (enumerate 0 xs)"
| "own_props (JStr s) = map (\<lambda>(i, c). (index_key i, JStr [c])) (enumerate 0 s)"
| "own_props v = []"

section \<open>The types of \<open>types.ts\<close>\<close>

datatype WeatherCondition = SUNNY | RAINY | CLOUDY | SNOWY | HOT | COLD

text \<open>The string value of each member of the enum (U+B9D1 U+C74C, U+BE44, U+D750 U+B9BC,
  U+B208, U+B354 U+C6C0, U+CD94 U+C6C0).\<close>

fun WeatherCondition_value :: "WeatherCondition \<Rightarrow> jsstring" where
  "WeatherCondition_value SUNNY = [0xB9D1, 0xC74C]"
| "WeatherCondition_value RAINY = [0xBE44]"
| "WeatherCondition_value CLOUDY = [0xD750, 0xB9BC]"
| "WeatherCondition_value SNOWY = [0xB208]"
| "WeatherCondition_value HOT = [0xB354, 0xC6C0]"
| "WeatherCondition_value COLD = [0xCD94, 0xC6C0]"

datatype MealTime = BREAKFAST | LUNCH | DINNER | SNACK

datatype FoodPreference = SPICY | MILD | SOUP | LIGHT | HEAVY

record WeatherInfo =
  condition :: WeatherCondition
  temperature :: jsnumber

datatype AppStep =
  Welcome | GettingWeather | ManualWeather | Preferences | Loading | Result | ErrorStep

section \<open>The state of \<open>App\<close>\<close>

text \<open>
  One field per \<open>useState\<close> hook. \<open>None\<close> is \<open>null\<close>. \<open>recommendations\<close> holds the
  objects that \<open>handlePreferencesSubmit\<close> builds, each the list of its properties.
  \<open>currentUserRating\<close> holds whatever the first recommendation's \<open>familiarity\<close> was, or the
  slider's number; \<open>JNull\<close> is its \<open>null\<close>. \<open>familiarityRatings\<close> is the table keyed by
  food name.
\<close>

record app_state =
  step :: AppStep
  weather :: "WeatherInfo option"
  mealTime :: "MealTime option"
  foodPreference :: "FoodPreference option"
  recommendations :: "(jsstring \<times> jsval) list list option"
  error :: "jsstring option"
  familiarityRatings :: "jsstring \<rightharpoonup> jsval"
  currentUserRating :: jsval

definition initial_state :: app_state where
  "initial_state =
     \<lparr>step = Welcome, weather = None, mealTime = None, foodPreference = None,
      recommendations = None, error = None, familiarityRatings = Map.empty,
      currentUserRating = JNull\<rparr>"

definition handleStart :: "app_state \<Rightarrow> app_state" where
  "handleStart s = s\<lparr>step := GettingWeather\<rparr>"

subsection \<open>\<open>handleManualWeatherSelect\<close>\<close>

text \<open>The \<open>switch\<close> over the condition: the default of 20 stays for the members that have
  no \<open>case\<close>.\<close>

fun manual_temperature :: "WeatherCondition \<Rightarrow> jsnumber" where
  "manual_temperature HOT = Finite 30"
| "manual_temperature COLD = Finite 5"
| "manual_temperature SNOWY = Finite (- 2)"
| "manual_temperature RAINY = Finite 15"
| "manual_temperature c = Finite 20"

definition handleManualWeatherSelect :: "WeatherCondition \<Rightarrow> app_state \<Rightarrow> app_state" where
  "handleManualWeatherSelect c s =
     s\<lparr>weather := Some \<lparr>condition = c, temperature = manual_temperature c\<rparr>,
       step := Preferences\<rparr>"

section \<open>\<open>services/geminiService.ts\<close>\<close>

text \<open>
  The remote model and the platform are the environment. A call of
  \<open>ai.models.generateContent\<close> either rejects or answers with a response whose \<open>text\<close> is a
  string or \<open>undefined\<close>; the prompt only decides what the service answers, so the outcome
  of the call is an argument of the model. \<open>JSON.parse\<close> is a parameter as well: a function
  from the text to the parsed value, \<open>None\<close> where it throws its \<open>SyntaxError\<close>.
  The module throws while it loads when no API key is set; the functions below are those
  of a module that has loaded.
\<close>

datatype generate_outcome =
    Rejects js_error
  | Responds "jsstring option"

text \<open>\<open>String(text)\<close>, the coercion \<open>JSON.parse\<close> applies to its argument.\<close>

definition text_string :: "jsstring option \<Rightarrow> jsstring" where
  "text_string t = (case t of None \<Rightarrow> ascii ''undefined'' | Some str \<Rightarrow> str)"

subsection \<open>\<open>getFoodRecommendation\<close>\<close>

text \<open>The body of the \<open>try\<close> block. The value returned is the parsed array itself: the
  cast to \<open>Recommendation[]\<close> checks nothing.\<close>

definition recommendation_try ::
  "(jsstring \<Rightarrow> jsval option) \<Rightarrow> generate_outcome \<Rightarrow> js_error + jsval list" where
  "recommendation_try JSON_parse outcome =
     (case outcome of
        Rejects e \<Rightarrow> Inl e
      | Responds text \<Rightarrow>
          (case JSON_parse (text_string text) of
             None \<Rightarrow> Inl SyntaxError
           | Some parsedResponse \<Rightarrow>
               (case parsedResponse of
                  JArr [] \<Rightarrow> Inl (Error (ascii ''Invalid response format: expected an array.''))
                | JArr (firstItem # others) \<Rightarrow>
                    (case member firstItem (ascii ''foodName'') of
                       Inl e \<Rightarrow> Inl e
                     | Inr foodName \<Rightarrow>
                    (case member firstItem (ascii ''reason'') of
                       Inl e \<Rightarrow> Inl e
                     | Inr reason \<Rightarrow>
                    (case member firstItem (ascii ''familiarity'') of
                       Inl e \<Rightarrow> Inl e
                     | Inr familiarity \<Rightarrow>
                         if \<not> truthy foodName \<or> \<not> truthy reason \<or> familiarity = JUndefined
                         then Inl (Error (ascii ''Invalid response format from Gemini API''))
                         else Inr (firstItem # others))))
                | _ \<Rightarrow> Inl (Error (ascii ''Invalid response format: expected an array.'')))))"

text \<open>The \<open>catch\<close> block replaces every error by one message.\<close>

definition getFoodRecommendation ::
  "(jsstring \<Rightarrow> jsval option) \<Rightarrow> generate_outcome \<Rightarrow> js_error + jsval list" where
  "getFoodRecommendation JSON_parse outcome =
     (case recommendation_try JSON_parse outcome of
        Inr parsedResponse \<Rightarrow> Inr parsedResponse
      | Inl e \<Rightarrow> Inl (Error (ascii ''Failed to get food recommendation from Gemini API.'')))"

subsection \<open>\<open>generateFoodImage\<close>\<close>

text \<open>
  A call of \<open>ai.models.generateImages\<close> rejects or answers with \<open>generatedImages\<close>, absent
  or a list. Of each generated image the program reads \<open>image.imageBytes\<close>: the outer
  \<open>None\<close> is an absent \<open>image\<close>, the inner one absent \<open>imageBytes\<close>.
\<close>

type_synonym generated_image = "jsstring option option"

datatype images_outcome =
    ImagesRejects js_error
  | ImagesResponds "generated_image list option"

definition image_try :: "images_outcome \<Rightarrow> js_error + jsstring" where
  "image_try outcome =
     (case outcome of
        ImagesRejects e \<Rightarrow> Inl e
      | ImagesResponds None \<Rightarrow> Inl (Error (ascii ''No image was generated.''))
      | ImagesResponds (Some []) \<Rightarrow> Inl (Error (ascii ''No image was generated.''))
      | ImagesResponds (Some (generated # _)) \<Rightarrow>
          (case generated of
             None \<Rightarrow> Inl TypeError
           | Some base64ImageBytes \<Rightarrow>
               Inr (ascii ''data:image/jpeg;base64,'' @ text_string base64ImageBytes)))"

definition generateFoodImage :: "images_outcome \<Rightarrow> js_error + jsstring" where
  "generateFoodImage outcome =
     (case image_try outcome of
        Inr url \<Rightarrow> Inr url
      | Inl e \<Rightarrow> Inl (Error (ascii ''Failed to generate food image from Gemini API.'')))"

subsection \<open>\<open>getWeatherFromCoordinates\<close>\<close>

text \<open>\<open>String.prototype.trim\<close> removes white space and line terminators from both ends.\<close>

definition is_whitespace :: "code_unit \<Rightarrow> bool" where
  "is_whitespace c =
     (c \<in> set [0x09, 0x0A, 0x0B, 0x0C, 0x0D, 0x20, 0xA0, 0x1680, 0x2028, 0x2029, 0x202F,
               0x205F, 0x3000, 0xFEFF]
      \<or> (0x2000 \<le> c \<and> c \<le> 0x200A))"

definition trim :: "jsstring \<Rightarrow> jsstring" where
  "trim s = rev (dropWhile is_whitespace (rev (dropWhile is_whitespace s)))"

text \<open>The two \<open>replace\<close> calls: the first pattern is anchored at the start of the text, the
  second at its end, and each match is replaced by the empty string.\<close>

definition fence_open :: jsstring where
  "fence_open = ascii ''```json'' @ [0x0A]"

definition fence_close :: jsstring where
  "fence_close = 0x0A # ascii ''```''"

definition remove_leading :: "jsstring \<Rightarrow> jsstring \<Rightarrow> jsstring" where
  "remove_leading p s = (if take (length p) s = p then drop (length p) s else s)"

definition remove_trailing :: "jsstring \<Rightarrow> jsstring \<Rightarrow> jsstring" where
  "remove_trailing p s =
     (if length p \<le> length s \<and> drop (length s - length p) s = p
      then take (length s - length p) s else s)"

definition strip_fence :: "jsstring \<Rightarrow> jsstring" where
  "strip_fence s = remove_trailing fence_close (remove_leading fence_open s)"

text \<open>\<open>Object.values(WeatherCondition)\<close>, and \<open>includes\<close> on this array of strings: only a
  string equal to one of them is found.\<close>

definition validWeathers :: "jsstring list" where
  "validWeathers = map WeatherCondition_value [SUNNY, RAINY, CLOUDY, SNOWY, HOT, COLD]"

fun array_includes :: "jsstring list \<Rightarrow> jsval \<Rightarrow> bool" where
  "array_includes xs (JStr s) = (s \<in> set xs)"
| "array_includes xs v = False"

fun typeof_number :: "jsval \<Rightarrow> bool" where
  "typeof_number (JNum n) = True"
| "typeof_number v = False"

text \<open>
  The cast \<open>parsed.condition as WeatherCondition\<close> keeps the string; in the model the
  member of the enum with that value stands for it. Both functions below are applied only
  behind the test that makes their argument a valid condition and a number.
\<close>

fun as_WeatherCondition :: "jsval \<Rightarrow> WeatherCondition" where
  "as_WeatherCondition (JStr s) =
     (case find (\<lambda>c. WeatherCondition_value c = s) [SUNNY, RAINY, CLOUDY, SNOWY, HOT, COLD] of
        Some c \<Rightarrow> c | None \<Rightarrow> CLOUDY)"
| "as_WeatherCondition v = CLOUDY"

fun number_value :: "jsval \<Rightarrow> jsnumber" where
  "number_value (JNum n) = n"
| "number_value v = Finite 0"

text \<open>\<open>Math.round\<close>: the nearest integer, a tie going up; an infinity is returned as it
  is.\<close>

fun Math_round :: "jsnumber \<Rightarrow> jsnumber" where
  "Math_round (Finite x) = Finite (of_int \<lfloor>x + 1 / 2\<rfloor>)"
| "Math_round PosInfinity = PosInfinity"
| "Math_round NegInfinity = NegInfinity"

definition weather_fallback :: WeatherInfo where
  "weather_fallback = \<lparr>condition = CLOUDY, temperature = Finite 20\<rparr>"

text \<open>The body of the \<open>try\<close> block; \<open>trim\<close> on an absent text is a \<open>TypeError\<close>.\<close>

definition weather_try ::
  "(jsstring \<Rightarrow> jsval option) \<Rightarrow> generate_outcome \<Rightarrow> js_error + WeatherInfo" where
  "weather_try JSON_parse outcome =
     (case outcome of
        Rejects e \<Rightarrow> Inl e
      | Responds None \<Rightarrow> Inl TypeError
      | Responds (Some text) \<Rightarrow>
          (let responseText = trim text;
               jsonString = strip_fence responseText
           in case JSON_parse jsonString of
                None \<Rightarrow> Inl SyntaxError
              | Some parsed \<Rightarrow>
                  (case member parsed (ascii ''condition'') of
                     Inl e \<Rightarrow> Inl e
                   | Inr parsed_condition \<Rightarrow>
                  (case member parsed (ascii ''temperature'') of
                     Inl e \<Rightarrow> Inl e
                   | Inr parsed_temperature \<Rightarrow>
                       if truthy parsed_condition \<and> array_includes validWeathers parsed_condition
                          \<and> typeof_number parsed_temperature
                       then Inr \<lparr>condition = as_WeatherCondition parsed_condition,
                                 temperature = Math_round (number_value parsed_temperature)\<rparr>
                       else Inr weather_fallback))))"

text \<open>The \<open>catch\<close> block returns the default instead of rethrowing.\<close>

definition getWeatherFromCoordinates ::
  "(jsstring \<Rightarrow> jsval option) \<Rightarrow> generate_outcome \<Rightarrow> js_error + WeatherInfo" where
  "getWeatherFromCoordinates JSON_parse outcome =
     (case weather_try JSON_parse outcome of
        Inr weatherInfo \<Rightarrow> Inr weatherInfo
      | Inl e \<Rightarrow> Inr weather_fallback)"

section \<open>The handlers of \<open>App\<close>\<close>

text \<open>The setters the selection buttons and the rating slider call.\<close>

definition setMealTime :: "MealTime \<Rightarrow> app_state \<Rightarrow> app_state" where
  "setMealTime mt s = s\<lparr>mealTime := Some mt\<rparr>"

definition setFoodPreference :: "FoodPreference \<Rightarrow> app_state \<Rightarrow> app_state" where
  "setFoodPreference fp s = s\<lparr>foodPreference := Some fp\<rparr>"

definition setCurrentUserRating :: "jsval \<Rightarrow> app_state \<Rightarrow> app_state" where
  "setCurrentUserRating v s = s\<lparr>currentUserRating := v\<rparr>"

subsection \<open>The effect that resolves the weather\<close>

text \<open>
  What the browser's geolocation does: \<open>navigator.geolocation\<close> is absent, or
  \<open>getCurrentPosition\<close> calls the error callback, or it calls the success callback with
  the coordinates.
\<close>

datatype geolocation =
    GeolocationUnsupported
  | PositionError
  | Position rat rat

text \<open>The effect runs when the step is \<open>gettingWeather\<close>; its outcome is the state once the
  callback, with the call it awaits, has finished.\<close>

definition gettingWeather_effect ::
  "(jsstring \<Rightarrow> jsval option) \<Rightarrow> geolocation \<Rightarrow> generate_outcome \<Rightarrow> app_state \<Rightarrow> app_state" where
  "gettingWeather_effect JSON_parse geo outcome s =
     (if step s \<noteq> GettingWeather then s
      else case geo of
             GeolocationUnsupported \<Rightarrow> s\<lparr>step := ManualWeather\<rparr>
           | Position latitude longitude \<Rightarrow>
               (case getWeatherFromCoordinates JSON_parse outcome of
                  Inr weatherInfo \<Rightarrow> s\<lparr>weather := Some weatherInfo, step := Preferences\<rparr>
                | Inl err \<Rightarrow> s\<lparr>step := ManualWeather\<rparr>)
           | PositionError \<Rightarrow> s\<lparr>step := ManualWeather\<rparr>)"

subsection \<open>\<open>handlePreferencesSubmit\<close>\<close>

text \<open>The message of the \<open>catch\<close> block, a Korean sentence of 35 code units.\<close>

definition generic_error_message :: jsstring where
  "generic_error_message =
     [0xCD94, 0xCC9C, 0xC744, 0x0020, 0xC0DD, 0xC131, 0xD558, 0xB294, 0x0020, 0xB370, 0x0020,
      0xC2E4, 0xD328, 0xD588, 0xC2B5, 0xB2C8, 0xB2E4, 0x002E, 0x0020, 0xC7A0, 0xC2DC, 0x0020,
      0xD6C4, 0x0020, 0xB2E4, 0xC2DC, 0x0020, 0xC2DC, 0xB3C4, 0xD574, 0x0020, 0xC8FC, 0xC138,
      0xC694, 0x002E]"

definition submit_failed :: "app_state \<Rightarrow> app_state" where
  "submit_failed s = s\<lparr>error := Some generic_error_message, step := ErrorStep\<rparr>"

text \<open>The callback of \<open>map\<close>: the spread of the recommendation, then \<open>imageUrl\<close>.\<close>

definition with_imageUrl :: "jsstring \<Rightarrow> nat \<Rightarrow> jsval \<Rightarrow> (jsstring \<times> jsval) list" where
  "with_imageUrl imageUrl index rec =
     AList.update (ascii ''imageUrl'') (JStr (if index = 0 then imageUrl else []))
       (own_props rec)"

text \<open>
  The handler from the click to the end of its \<open>try\<close> or \<open>catch\<close>. A state written before
  a \<open>throw\<close> stays written: \<open>currentUserRating\<close> is set before the image is requested.
\<close>

definition handlePreferencesSubmit ::
  "(jsstring \<Rightarrow> jsval option) \<Rightarrow> generate_outcome \<Rightarrow> images_outcome \<Rightarrow> app_state \<Rightarrow> app_state" where
  "handlePreferencesSubmit JSON_parse recommendation_outcome image_outcome s =
     (if mealTime s = None \<or> foodPreference s = None then s
      else
        let s1 = s\<lparr>step := Loading, error := None\<rparr> in
        case getFoodRecommendation JSON_parse recommendation_outcome of
          Inl err \<Rightarrow> submit_failed s1
        | Inr textRecommendations \<Rightarrow>
            (case textRecommendations of
               [] \<Rightarrow> submit_failed s1
             | primaryRecommendation # _ \<Rightarrow>
                 (case member primaryRecommendation (ascii ''familiarity'') of
                    Inl err \<Rightarrow> submit_failed s1
                  | Inr familiarity \<Rightarrow>
                      (let s2 = s1\<lparr>currentUserRating := familiarity\<rparr> in
                       case member primaryRecommendation (ascii ''foodName'') of
                         Inl err \<Rightarrow> submit_failed s2
                       | Inr foodName \<Rightarrow>
                           (case generateFoodImage image_outcome of
                              Inl err \<Rightarrow> submit_failed s2
                            | Inr imageUrl \<Rightarrow>
                                s2\<lparr>recommendations :=
                                     Some (map (\<lambda>(index, rec). with_imageUrl imageUrl index rec)
                                             (enumerate 0 textRecommendations)),
                                   step := Result\<rparr>)))))"

subsection \<open>\<open>resetAndSaveRating\<close> and \<open>resetFromError\<close>\<close>

text \<open>
  A computed property name \<open>[foodName]\<close> is the food name itself when it is a string; any
  other value is converted by the platform's \<open>ToString\<close>, a parameter of the model.
\<close>

definition ToPropertyKey :: "(jsval \<Rightarrow> jsstring) \<Rightarrow> jsval \<Rightarrow> jsstring" where
  "ToPropertyKey ToString v = (case v of JStr str \<Rightarrow> str | _ \<Rightarrow> ToString v)"

definition resetAndSaveRating :: "(jsval \<Rightarrow> jsstring) \<Rightarrow> app_state \<Rightarrow> app_state" where
  "resetAndSaveRating ToString s =
     (let saved =
        (case recommendations s of
           Some (first # _) \<Rightarrow>
             if currentUserRating s \<noteq> JNull
             then s\<lparr>familiarityRatings :=
                      (familiarityRatings s)
                        (ToPropertyKey ToString (field first (ascii ''foodName'')) \<mapsto>
                           currentUserRating s)\<rparr>
             else s
         | _ \<Rightarrow> s)
      in saved\<lparr>step := Welcome, weather := None, mealTime := None, foodPreference := None,
                recommendations := None, currentUserRating := JNull, error := None\<rparr>)"

definition resetFromError :: "app_state \<Rightarrow> app_state" where
  "resetFromError s =
     s\<lparr>step := Welcome, weather := None, mealTime := None, foodPreference := None,
       recommendations := None, currentUserRating := JNull, error := None\<rparr>"

section \<open>The checks in the words of the specification\<close>

text \<open>
  The specification's shallow check of a response: its first element has a truthy
  \<open>foodName\<close>, a truthy \<open>reason\<close> and a defined \<open>familiarity\<close>. Only an object has
  properties of these names.
\<close>

definition spec_first_item_valid :: "jsval \<Rightarrow> bool" where
  "spec_first_item_valid item =
     (case item of
        JObj kvs \<Rightarrow>
          truthy (field kvs (ascii ''foodName'')) \<and> truthy (field kvs (ascii ''reason''))
          \<and> field kvs (ascii ''familiarity'') \<noteq> JUndefined
      | _ \<Rightarrow> False)"

text \<open>The specification's \<open>Recommendation\<close>: an object whose \<open>foodName\<close> and \<open>reason\<close> are
  strings and whose \<open>familiarity\<close> is an integer from 1 to 5.\<close>

definition spec_familiarity_1_to_5 :: "jsval \<Rightarrow> bool" where
  "spec_familiarity_1_to_5 v =
     (case v of
        JNum (Finite n) \<Rightarrow> of_int \<lfloor>n\<rfloor> = n \<and> 1 \<le> n \<and> n \<le> 5
      | _ \<Rightarrow> False)"


fun is_string :: "jsval \<Rightarrow> bool" where
  "is_string (JStr s) = True"
| "is_string v = False"

definition spec_recommendation :: "jsval \<Rightarrow> bool" where
  "spec_recommendation item =
     (case item of
        JObj kvs \<Rightarrow>
          is_string (field kvs (ascii ''foodName'')) \<and> is_string (field kvs (ascii ''reason''))
          \<and> spec_familiarity_1_to_5 (field kvs (ascii ''familiarity''))
      | _ \<Rightarrow> False)"

text \<open>The one failure that \<open>getFoodRecommendation\<close> lets out.\<close>

definition recommendation_failure :: js_error where
  "recommendation_failure = Error (ascii ''Failed to get food recommendation from Gemini API.'')"

section \<open>Sample responses\<close>

text \<open>
  Concrete responses on which the model is run. \<open>JSON_parse_sample\<close> is \<open>JSON.parse\<close> cut
  down to the five texts below, on which it returns what \<open>JSON.parse\<close> returns; it rejects
  every other text, and is only ever applied to one of the five or to a text that is not
  JSON.
\<close>

definition weather_text :: jsstring where
  \<open>weather_text =
     ascii ''{"condition":"'' @ [0xB9D1, 0xC74C] @ ascii ''","temperature":25.5}''\<close>

definition weather_parsed :: jsval where
  "weather_parsed =
     JObj [(ascii ''condition'', JStr [0xB9D1, 0xC74C]), (ascii ''temperature'', JNum (Finite (51 / 2)))]"

definition two_dishes_text :: jsstring where
  \<open>two_dishes_text =
     ascii ''[{"foodName":"a","reason":"b","familiarity":3},{"foodName":"c","reason":"d","familiarity":5}]''\<close>

definition two_dishes_parsed :: "jsval list" where
  "two_dishes_parsed =
     [JObj [(ascii ''foodName'', JStr (ascii ''a'')), (ascii ''reason'', JStr (ascii ''b'')),
            (ascii ''familiarity'', JNum (Finite 3))],
      JObj [(ascii ''foodName'', JStr (ascii ''c'')), (ascii ''reason'', JStr (ascii ''d'')),
            (ascii ''familiarity'', JNum (Finite 5))]]"

definition shallow_text :: jsstring where
  \<open>shallow_text = ascii ''[{"foodName":"a","reason":"b","familiarity":7},5]''\<close>

definition shallow_parsed :: "jsval list" where
  "shallow_parsed =
     [JObj [(ascii ''foodName'', JStr (ascii ''a'')), (ascii ''reason'', JStr (ascii ''b'')),
            (ascii ''familiarity'', JNum (Finite 7))],
      JNum (Finite 5)]"

definition empty_array_text :: jsstring where
  "empty_array_text = ascii ''[]''"

text \<open>A weather answer whose temperature, \<open>1e400\<close>, is beyond the largest double; its
  condition is hot (U+B354 U+C6C0).\<close>

definition overflow_weather_text :: jsstring where
  \<open>overflow_weather_text =
     ascii ''{"condition":"'' @ [0xB354, 0xC6C0] @ ascii ''","temperature":1e400}''\<close>

definition overflow_weather_parsed :: jsval where
  "overflow_weather_parsed =
     JObj [(ascii ''condition'', JStr [0xB354, 0xC6C0]), (ascii ''temperature'', JNum PosInfinity)]"

definition JSON_parse_sample :: "jsstring \<Rightarrow> jsval option" where
  "JSON_parse_sample str =
     (if str = weather_text then Some weather_parsed
      else if str = two_dishes_text then Some (JArr two_dishes_parsed)
      else if str = shallow_text then Some (JArr shallow_parsed)
      else if str = empty_array_text then Some (JArr [])
      else if str = overflow_weather_text then Some overflow_weather_parsed
      else None)"


text \<open>An image answer of one image, and the session of a user who has chosen dinner and
  soup after a manual choice of rain.\<close>

definition one_image :: images_outcome where
  "one_image = ImagesResponds (Some [Some (Some (ascii ''QUJD''))])"

definition chosen_state :: app_state where
  "chosen_state =
     setFoodPreference SOUP (setMealTime DINNER
       (handleManualWeatherSelect RAINY (initial_state\<lparr>step := ManualWeather\<rparr>)))"

text \<open>The session after a successful submission, the slider then moved to 4.\<close>

definition rated_state :: app_state where
  "rated_state =
     setCurrentUserRating (JNum (Finite 4))
       (handlePreferencesSubmit JSON_parse_sample (Responds (Some two_dishes_text))
          one_image chosen_state)"

section \<open>Manual weather selection\<close>

text \<open>
  C9. For every condition chosen in manual weather mode, \<open>handleManualWeatherSelect\<close> sets
  the session weather to that condition with a temperature fixed by the condition alone
  (30 for hot, 5 for cold, -2 for snowy, 15 for rainy, 20 for sunny and for cloudy) and
  moves the step to the preferences screen; no other field changes.
\<close>

theorem handleManualWeatherSelect_sets_weather:
  "handleManualWeatherSelect c s =
     s\<lparr>weather := Some \<lparr>condition = c,
                          temperature = Finite (case c of HOT \<Rightarrow> 30 | COLD \<Rightarrow> 5 | SNOWY \<Rightarrow> - 2
                                                 | RAINY \<Rightarrow> 15 | SUNNY \<Rightarrow> 20 | CLOUDY \<Rightarrow> 20)\<rparr>,
       step := Preferences\<rparr>"
  by (cases c) (simp_all add: handleManualWeatherSelect_def)

theorem handleManualWeatherSelect_sets_weather_witness:
  "handleManualWeatherSelect SNOWY (initial_state\<lparr>step := ManualWeather\<rparr>) =
     initial_state\<lparr>weather := Some \<lparr>condition = SNOWY, temperature = Finite (- 2)\<rparr>,
                    step := Preferences\<rparr>"
  using handleManualWeatherSelect_sets_weather [of SNOWY "initial_state\<lparr>step := ManualWeather\<rparr>"]
  by simp

section \<open>Facts about the services\<close>

subsection \<open>The recommendation answer\<close>

lemma first_item_check:
  "(case member item (ascii ''foodName'') of
      Inl e \<Rightarrow> Inl e
    | Inr foodName \<Rightarrow>
    (case member item (ascii ''reason'') of
      Inl e \<Rightarrow> Inl e
    | Inr reason \<Rightarrow>
    (case member item (ascii ''familiarity'') of
      Inl e \<Rightarrow> Inl e
    | Inr familiarity \<Rightarrow>
        if \<not> truthy foodName \<or> \<not> truthy reason \<or> familiarity = JUndefined
        then Inl (Error m) else Inr (r :: jsval list))))
   = (if spec_first_item_valid item then Inr r
      else Inl (case item of JUndefined \<Rightarrow> TypeError | JNull \<Rightarrow> TypeError | _ \<Rightarrow> Error m))"
  by (cases item) (simp_all add: spec_first_item_valid_def)

lemma getFoodRecommendation_cases:
  "getFoodRecommendation P outcome =
     (case outcome of
        Rejects e \<Rightarrow> Inl recommendation_failure
      | Responds text \<Rightarrow>
          (case P (text_string text) of
             Some (JArr (item # others)) \<Rightarrow>
               if spec_first_item_valid item then Inr (item # others)
               else Inl recommendation_failure
           | _ \<Rightarrow> Inl recommendation_failure))"
  unfolding getFoodRecommendation_def recommendation_try_def first_item_check recommendation_failure_def
  by (simp split: generate_outcome.splits option.splits jsval.splits list.splits)

lemma getFoodRecommendation_Inr:
  "getFoodRecommendation P outcome = Inr recs \<Longrightarrow>
   \<exists>text item others. outcome = Responds text \<and> P (text_string text) = Some (JArr recs)
      \<and> recs = item # others \<and> spec_first_item_valid item"
  unfolding getFoodRecommendation_cases
  by (auto split: generate_outcome.splits option.splits jsval.splits list.splits if_splits)

lemma getFoodRecommendation_Inl:
  "getFoodRecommendation P outcome = Inl e \<Longrightarrow> e = recommendation_failure"
  unfolding getFoodRecommendation_cases
  by (auto split: generate_outcome.splits option.splits jsval.splits list.splits if_splits)

subsection \<open>The weather answer\<close>






lemma strip_fence_fenced: "strip_fence (fence_open @ body @ fence_close) = body"
  by (simp add: strip_fence_def remove_leading_def remove_trailing_def)





lemma getWeatherFromCoordinates_total: "\<exists>w. getWeatherFromCoordinates P outcome = Inr w"
  by (simp add: getWeatherFromCoordinates_def split: sum.splits)

section \<open>The weather service never raises\<close>







subsection \<open>The sample responses\<close>

lemma sample_parse_shallow: "JSON_parse_sample shallow_text = Some (JArr shallow_parsed)"
  by (simp add: JSON_parse_sample_def shallow_text_def weather_text_def two_dishes_text_def
      ascii_def)

lemma sample_parse_empty: "JSON_parse_sample empty_array_text = Some (JArr [])"
  by (simp add: JSON_parse_sample_def empty_array_text_def shallow_text_def weather_text_def
      two_dishes_text_def ascii_def)

lemma sample_parse_two: "JSON_parse_sample two_dishes_text = Some (JArr two_dishes_parsed)"
  by (simp add: JSON_parse_sample_def weather_text_def two_dishes_text_def ascii_def)

lemma shallow_first_valid: "spec_first_item_valid (hd shallow_parsed)"
  by (simp add: shallow_parsed_def spec_first_item_valid_def field_def ascii_def)

lemma sample_accepts_shallow:
  "getFoodRecommendation JSON_parse_sample (Responds (Some shallow_text)) = Inr shallow_parsed"
  using sample_parse_shallow shallow_first_valid
  by (simp add: getFoodRecommendation_cases text_string_def shallow_parsed_def)

lemma sample_accepts_two:
  "getFoodRecommendation JSON_parse_sample (Responds (Some two_dishes_text)) =
     Inr two_dishes_parsed"
proof -
  have "spec_first_item_valid (hd two_dishes_parsed)"
    by (simp add: two_dishes_parsed_def spec_first_item_valid_def field_def ascii_def)
  then show ?thesis
    using sample_parse_two
    by (simp add: getFoodRecommendation_cases text_string_def two_dishes_parsed_def)
qed

section \<open>The validation of a recommendation answer\<close>

text \<open>
  C7. The validation of \<open>getFoodRecommendation\<close> inspects only the first element of the
  array: whenever the answer parses to an array whose first element has a truthy
  \<open>foodName\<close>, a truthy \<open>reason\<close> and a defined \<open>familiarity\<close>, the whole array is
  returned unchanged, whatever the other elements are. Conversely, when the call rejects,
  or the answer is not such an array (it does not parse, is not an array, is empty, or
  its first element fails the check), the one generic failure is raised.
\<close>

theorem getFoodRecommendation_checks_first_item_only:
  "(outcome = Responds answer \<and> P (text_string answer) = Some (JArr (item # others))
      \<and> spec_first_item_valid item
    \<longrightarrow> getFoodRecommendation P outcome = Inr (item # others))
   \<and> (\<not> (\<exists>answer item others. outcome = Responds answer
             \<and> P (text_string answer) = Some (JArr (item # others))
             \<and> spec_first_item_valid item)
    \<longrightarrow> getFoodRecommendation P outcome = Inl recommendation_failure)"
  unfolding getFoodRecommendation_cases
  by (auto split: generate_outcome.splits option.splits jsval.splits list.splits)

text \<open>An array whose second element is the number 5 is returned as it is; the empty array
  raises the failure.\<close>

theorem getFoodRecommendation_checks_first_item_only_witness:
  "getFoodRecommendation JSON_parse_sample (Responds (Some shallow_text)) =
     Inr [JObj [(ascii ''foodName'', JStr (ascii ''a'')), (ascii ''reason'', JStr (ascii ''b'')),
                (ascii ''familiarity'', JNum (Finite 7))],
          JNum (Finite 5)]
   \<and> getFoodRecommendation JSON_parse_sample (Responds (Some empty_array_text)) =
     Inl recommendation_failure"
  using getFoodRecommendation_checks_first_item_only
      [of "Responds (Some shallow_text)" "Some shallow_text" JSON_parse_sample
        "hd shallow_parsed" "tl shallow_parsed"]
    getFoodRecommendation_checks_first_item_only
      [of "Responds (Some empty_array_text)" _ JSON_parse_sample]
    sample_parse_shallow sample_parse_empty shallow_first_valid
  by (simp add: text_string_def shallow_parsed_def)

text \<open>
  C2, as stated, fails: an answer of two elements, the second of them a bare number, is
  returned successfully.
\<close>

theorem getFoodRecommendation_five_counterexample:
  "getFoodRecommendation JSON_parse_sample (Responds (Some shallow_text)) = Inr shallow_parsed
   \<and> length shallow_parsed = 2
   \<and> \<not> spec_recommendation (shallow_parsed ! 1)"
  using sample_accepts_shallow
  by (simp add: shallow_parsed_def spec_recommendation_def)

text \<open>
  C2, amended. Whenever \<open>getFoodRecommendation\<close> resolves successfully, the list it returns
  is the parsed answer itself, it is not empty, and its first element is an object with a
  truthy \<open>foodName\<close>, a truthy \<open>reason\<close> and a defined \<open>familiarity\<close>. The number of
  elements and the shape of the others are not checked.
\<close>

theorem getFoodRecommendation_returns_checked_array:
  assumes "getFoodRecommendation P outcome = Inr recs"
  shows "\<exists>answer kvs others. outcome = Responds answer
           \<and> P (text_string answer) = Some (JArr recs)
           \<and> recs = JObj kvs # others
           \<and> truthy (field kvs (ascii ''foodName''))
           \<and> truthy (field kvs (ascii ''reason''))
           \<and> field kvs (ascii ''familiarity'') \<noteq> JUndefined"
proof -
  from assms obtain answer item others where
    o: "outcome = Responds answer" "P (text_string answer) = Some (JArr recs)"
    and r: "recs = item # others" and v: "spec_first_item_valid item"
    using getFoodRecommendation_Inr by blast
  from v obtain kvs where "item = JObj kvs"
    by (cases item) (simp_all add: spec_first_item_valid_def)
  with o r v show ?thesis
    by (simp add: spec_first_item_valid_def)
qed

theorem getFoodRecommendation_returns_checked_array_witness:
  "\<exists>kvs others. shallow_parsed = JObj kvs # others
      \<and> truthy (field kvs (ascii ''foodName''))
      \<and> truthy (field kvs (ascii ''reason''))
      \<and> field kvs (ascii ''familiarity'') \<noteq> JUndefined"
  using getFoodRecommendation_returns_checked_array [OF sample_accepts_shallow]
  by blast

section \<open>The familiarity of a returned recommendation\<close>

text \<open>
  C8, as stated, fails: the sample answer is returned although the familiarity of its first
  element is 7 and its second element has none.
\<close>

theorem getFoodRecommendation_familiarity_counterexample:
  "getFoodRecommendation JSON_parse_sample (Responds (Some shallow_text)) = Inr shallow_parsed
   \<and> member (shallow_parsed ! 0) (ascii ''familiarity'') = Inr (JNum (Finite 7))
   \<and> \<not> spec_familiarity_1_to_5 (JNum (Finite 7))
   \<and> member (shallow_parsed ! 1) (ascii ''familiarity'') = Inr JUndefined"
  using sample_accepts_shallow
  by (simp add: shallow_parsed_def spec_familiarity_1_to_5_def field_def ascii_def)

text \<open>
  C8, amended. The first recommendation that \<open>getFoodRecommendation\<close> returns has a
  \<open>familiarity\<close> that is present (not \<open>undefined\<close>). Its value is not checked to be an
  integer from 1 to 5, and the familiarity of the other recommendations is not checked.
\<close>

theorem getFoodRecommendation_first_familiarity_defined:
  assumes "getFoodRecommendation P outcome = Inr recs"
  shows "\<exists>item others v. recs = item # others
           \<and> member item (ascii ''familiarity'') = Inr v \<and> v \<noteq> JUndefined"
proof -
  from assms obtain item others where
    r: "recs = item # others" and v: "spec_first_item_valid item"
    using getFoodRecommendation_Inr by blast
  from v obtain kvs where "item = JObj kvs"
    by (cases item) (simp_all add: spec_first_item_valid_def)
  with r v show ?thesis
    by (simp add: spec_first_item_valid_def)
qed

theorem getFoodRecommendation_first_familiarity_defined_witness:
  "\<exists>item others v. two_dishes_parsed = item # others
      \<and> member item (ascii ''familiarity'') = Inr v \<and> v \<noteq> JUndefined"
  by (rule getFoodRecommendation_first_familiarity_defined [OF sample_accepts_two])

section \<open>Facts about the handlers\<close>

lemma field_update:
  "field (AList.update k v al) name = (if name = k then v else field al name)"
  by (simp add: field_def update_conv')

lemma with_imageUrl_field:
  "field (with_imageUrl url i r) name =
     (if name = ascii ''imageUrl'' then JStr (if i = 0 then url else [])
      else field (own_props r) name)"
  by (simp add: with_imageUrl_def field_update)

lemma enumerate_positive: "(i, r) \<in> set (enumerate (Suc n) xs) \<Longrightarrow> i \<noteq> 0"
  by (auto simp: in_set_enumerate_eq)

lemma generateFoodImage_Inr:
  "generateFoodImage outcome = Inr url \<Longrightarrow>
   \<exists>bytes. url = ascii ''data:image/jpeg;base64,'' @ bytes"
  by (auto simp: generateFoodImage_def image_try_def
      split: images_outcome.splits option.splits list.splits sum.splits)

lemma generateFoodImage_nonempty: "generateFoodImage outcome = Inr url \<Longrightarrow> url \<noteq> []"
  by (auto dest!: generateFoodImage_Inr simp: ascii_def)

lemma handlePreferencesSubmit_cases:
  assumes "mealTime s \<noteq> None" and "foodPreference s \<noteq> None"
  shows "handlePreferencesSubmit P recommendation_outcome image_outcome s =
     (case getFoodRecommendation P recommendation_outcome of
        Inl e \<Rightarrow> submit_failed (s\<lparr>step := Loading, error := None\<rparr>)
      | Inr recs \<Rightarrow>
          (case member (hd recs) (ascii ''familiarity'') of
             Inl e \<Rightarrow> submit_failed (s\<lparr>step := Loading, error := None\<rparr>)
           | Inr familiarity \<Rightarrow>
               (case generateFoodImage image_outcome of
                  Inl e \<Rightarrow>
                    submit_failed (s\<lparr>step := Loading, error := None,
                                    currentUserRating := familiarity\<rparr>)
                | Inr url \<Rightarrow>
                    s\<lparr>step := Loading, error := None, currentUserRating := familiarity,
                      recommendations :=
                        Some (map (\<lambda>(index, rec). with_imageUrl url index rec)
                                (enumerate 0 recs)),
                      step := Result\<rparr>)))"
proof (cases "getFoodRecommendation P recommendation_outcome")
  case (Inl e)
  with assms show ?thesis by (auto simp: handlePreferencesSubmit_def)
next
  case (Inr recs)
  then obtain item others where r: "recs = item # others" and v: "spec_first_item_valid item"
    using getFoodRecommendation_Inr by blast
  from v obtain kvs where k: "item = JObj kvs"
    by (cases item) (simp_all add: spec_first_item_valid_def)
  from assms Inr r k show ?thesis
    by (auto simp: handlePreferencesSubmit_def Let_def split: sum.splits)
qed

lemma generic_error_message_nonempty: "generic_error_message \<noteq> []"
  by (simp add: generic_error_message_def)

lemma chosen: "mealTime chosen_state \<noteq> None" "foodPreference chosen_state \<noteq> None"
  by (simp_all add: chosen_state_def setFoodPreference_def setMealTime_def
      handleManualWeatherSelect_def initial_state_def)

lemma sample_image:
  "generateFoodImage one_image = Inr (ascii ''data:image/jpeg;base64,QUJD'')"
  by (simp add: generateFoodImage_def image_try_def one_image_def text_string_def ascii_def)

lemma sample_image_rejected: "generateFoodImage (ImagesRejects ApiFailure) =
    Inl (Error (ascii ''Failed to generate food image from Gemini API.''))"
  by (simp add: generateFoodImage_def image_try_def)

section \<open>Resolving the weather\<close>

text \<open>
  C1, as stated, fails for a failure of the weather-inference call: with a position at
  hand, a rejected call (a network error) and an answer that does not parse both end in
  the preferences step, with the fallback weather, and not in manual weather selection.
\<close>

theorem weather_failure_counterexample:
  "step (gettingWeather_effect JSON_parse_sample (Position 37 127) (Rejects ApiFailure)
          (handleStart initial_state)) = Preferences
   \<and> step (gettingWeather_effect JSON_parse_sample (Position 37 127) (Rejects ApiFailure)
          (handleStart initial_state)) \<noteq> ManualWeather
   \<and> step (gettingWeather_effect JSON_parse_sample (Position 37 127)
          (Responds (Some (ascii ''sunny''))) (handleStart initial_state)) = Preferences
   \<and> weather (gettingWeather_effect JSON_parse_sample (Position 37 127)
          (Responds (Some (ascii ''sunny''))) (handleStart initial_state))
       = Some \<lparr>condition = CLOUDY, temperature = Finite 20\<rparr>"
proof -
  have "strip_fence (trim (ascii ''sunny'')) = ascii ''sunny''"
    by (simp add: strip_fence_def remove_trailing_def remove_leading_def trim_def
        fence_open_def fence_close_def ascii_def is_whitespace_def)
  moreover have "JSON_parse_sample (ascii ''sunny'') = None"
    by (simp add: JSON_parse_sample_def weather_text_def two_dishes_text_def shallow_text_def
        empty_array_text_def overflow_weather_text_def ascii_def)
  ultimately show ?thesis
    by (simp add: gettingWeather_effect_def getWeatherFromCoordinates_def weather_try_def
        handleStart_def initial_state_def weather_fallback_def)
qed

text \<open>
  C1, amended. In every run of the weather-resolution flow, when the geolocation API is
  unsupported or the position request fails, the step becomes manual weather selection.
  When the position is obtained and the weather-inference call fails (the request rejects,
  or its text is absent or does not parse), the step becomes preferences with the weather
  set to the fallback, cloudy and 20. With a position the step always becomes preferences.
  In every run the step is not the error step and the error field is left as it was.
\<close>

theorem gettingWeather_effect_fallback:
  assumes "step s = GettingWeather"
  shows "(geo = GeolocationUnsupported \<or> geo = PositionError
            \<longrightarrow> gettingWeather_effect P geo outcome s = s\<lparr>step := ManualWeather\<rparr>)
       \<and> (geo = Position latitude longitude
            \<and> (outcome = Rejects e \<or> outcome = Responds None
                \<or> (\<exists>answer. outcome = Responds (Some answer)
                      \<and> P (strip_fence (trim answer)) = None))
            \<longrightarrow> gettingWeather_effect P geo outcome s
                  = s\<lparr>weather := Some \<lparr>condition = CLOUDY, temperature = Finite 20\<rparr>,
                      step := Preferences\<rparr>)
       \<and> (geo = Position latitude longitude
            \<longrightarrow> step (gettingWeather_effect P geo outcome s) = Preferences)
       \<and> step (gettingWeather_effect P geo outcome s) \<noteq> ErrorStep
       \<and> error (gettingWeather_effect P geo outcome s) = error s"
proof -
  have "gettingWeather_effect P (Position latitude longitude) outcome s
        = s\<lparr>weather := Some weather_fallback, step := Preferences\<rparr>"
    if "outcome = Rejects e \<or> outcome = Responds None
        \<or> (\<exists>answer. outcome = Responds (Some answer) \<and> P (strip_fence (trim answer)) = None)"
    using that assms
    by (auto simp: gettingWeather_effect_def getWeatherFromCoordinates_def weather_try_def)
  moreover have "step (gettingWeather_effect P geo outcome s) \<noteq> ErrorStep
       \<and> error (gettingWeather_effect P geo outcome s) = error s"
    using assms getWeatherFromCoordinates_total [of P outcome]
    by (cases geo) (auto simp: gettingWeather_effect_def)
  moreover have "step (gettingWeather_effect P (Position latitude longitude) outcome s)
        = Preferences"
    using assms getWeatherFromCoordinates_total [of P outcome]
    by (auto simp: gettingWeather_effect_def)
  ultimately show ?thesis
    using assms by (auto simp: gettingWeather_effect_def weather_fallback_def)
qed

lemma started: "step (handleStart initial_state) = GettingWeather"
  by (simp add: handleStart_def initial_state_def)

theorem gettingWeather_effect_fallback_witness:
  "gettingWeather_effect JSON_parse_sample PositionError (Rejects ApiFailure)
       (handleStart initial_state)
     = (handleStart initial_state)\<lparr>step := ManualWeather\<rparr>
   \<and> gettingWeather_effect JSON_parse_sample (Position 37 127) (Rejects ApiFailure)
       (handleStart initial_state)
     = (handleStart initial_state)
         \<lparr>weather := Some \<lparr>condition = CLOUDY, temperature = Finite 20\<rparr>, step := Preferences\<rparr>"
  using gettingWeather_effect_fallback
      [OF started, where geo = PositionError and P = JSON_parse_sample
        and outcome = "Rejects ApiFailure"]
    gettingWeather_effect_fallback
      [OF started, where geo = "Position 37 127" and P = JSON_parse_sample
        and outcome = "Rejects ApiFailure" and latitude = 37 and longitude = 127
        and e = ApiFailure]
  by simp

section \<open>A successful submission\<close>

text \<open>
  C3. If \<open>getFoodRecommendation\<close> returns a list and \<open>generateFoodImage\<close> succeeds, the
  submission (made with a meal time and a preference chosen) ends in the result step. The
  recommendations are as many as were returned; the first has the generated image URL,
  which is not empty, as its \<open>imageUrl\<close>, every other has the empty string, and every
  other property of each recommendation is what the service returned.
\<close>

theorem handlePreferencesSubmit_attaches_one_image:
  assumes "mealTime s \<noteq> None" and "foodPreference s \<noteq> None"
    and "getFoodRecommendation P recommendation_outcome = Inr recs"
    and "generateFoodImage image_outcome = Inr imageUrl"
  shows "\<exists>first others.
           step (handlePreferencesSubmit P recommendation_outcome image_outcome s) = Result
         \<and> recommendations (handlePreferencesSubmit P recommendation_outcome image_outcome s)
             = Some (first # others)
         \<and> length (first # others) = length recs
         \<and> field first (ascii ''imageUrl'') = JStr imageUrl \<and> imageUrl \<noteq> []
         \<and> (\<forall>other \<in> set others. field other (ascii ''imageUrl'') = JStr [])
         \<and> (\<forall>i name. i < length recs \<and> name \<noteq> ascii ''imageUrl''
               \<longrightarrow> field ((first # others) ! i) name = field (own_props (recs ! i)) name)"
proof -
  from assms(3) obtain item rest where r: "recs = item # rest" and v: "spec_first_item_valid item"
    using getFoodRecommendation_Inr by blast
  from v obtain kvs where k: "item = JObj kvs"
    by (cases item) (simp_all add: spec_first_item_valid_def)
  let ?final = "map (\<lambda>(index, rec). with_imageUrl imageUrl index rec) (enumerate 0 recs)"
  let ?s' = "handlePreferencesSubmit P recommendation_outcome image_outcome s"
  have st: "step ?s' = Result" and rc: "recommendations ?s' = Some ?final"
    using assms r k by (simp_all add: handlePreferencesSubmit_cases)
  have fin: "?final = with_imageUrl imageUrl 0 item #
      map (\<lambda>(index, rec). with_imageUrl imageUrl index rec) (enumerate (Suc 0) rest)"
    by (simp add: r)
  have others: "\<forall>other \<in> set (map (\<lambda>(index, rec). with_imageUrl imageUrl index rec)
      (enumerate (Suc 0) rest)). field other (ascii ''imageUrl'') = JStr []"
    by (auto simp: with_imageUrl_field dest: enumerate_positive)
  have keep: "\<forall>i name. i < length recs \<and> name \<noteq> ascii ''imageUrl''
      \<longrightarrow> field (?final ! i) name = field (own_props (recs ! i)) name"
    by (simp add: nth_enumerate_eq with_imageUrl_field)
  show ?thesis
    apply (rule exI [of _ "with_imageUrl imageUrl 0 item"])
    apply (rule exI [of _ "map (\<lambda>(index, rec). with_imageUrl imageUrl index rec)
      (enumerate (Suc 0) rest)"])
    using st rc fin others keep generateFoodImage_nonempty [OF assms(4)]
    by (simp add: with_imageUrl_field r)
qed

theorem handlePreferencesSubmit_attaches_one_image_witness:
  "\<exists>first others.
     step (handlePreferencesSubmit JSON_parse_sample (Responds (Some two_dishes_text))
            one_image chosen_state) = Result
   \<and> recommendations (handlePreferencesSubmit JSON_parse_sample
        (Responds (Some two_dishes_text)) one_image chosen_state) = Some (first # others)
   \<and> length (first # others) = length two_dishes_parsed
   \<and> field first (ascii ''imageUrl'') = JStr (ascii ''data:image/jpeg;base64,QUJD'')
   \<and> ascii ''data:image/jpeg;base64,QUJD'' \<noteq> []
   \<and> (\<forall>other \<in> set others. field other (ascii ''imageUrl'') = JStr [])
   \<and> (\<forall>i name. i < length two_dishes_parsed \<and> name \<noteq> ascii ''imageUrl''
         \<longrightarrow> field ((first # others) ! i) name = field (own_props (two_dishes_parsed ! i)) name)"
  by (rule handlePreferencesSubmit_attaches_one_image
      [OF chosen sample_accepts_two sample_image])

section \<open>A failed submission\<close>

text \<open>
  C4, as stated, fails: the sample answer is malformed (the familiarity of its first
  element is 7 and its second element is a bare number, so neither is a
  \<open>Recommendation\<close>), yet the submission ends in the result step with no error message.
\<close>

theorem malformed_answer_reaches_result_counterexample:
  "JSON_parse_sample (text_string (Some shallow_text)) = Some (JArr shallow_parsed)
   \<and> \<not> spec_recommendation (shallow_parsed ! 0)
   \<and> \<not> spec_recommendation (shallow_parsed ! 1)
   \<and> step (handlePreferencesSubmit JSON_parse_sample (Responds (Some shallow_text))
            one_image chosen_state) = Result
   \<and> error (handlePreferencesSubmit JSON_parse_sample (Responds (Some shallow_text))
            one_image chosen_state) = None"
  using chosen sample_accepts_shallow sample_image sample_parse_shallow
  by (simp add: handlePreferencesSubmit_cases text_string_def shallow_parsed_def
      spec_recommendation_def spec_familiarity_1_to_5_def field_def ascii_def)

text \<open>
  C4, amended. If \<open>getFoodRecommendation\<close> rejects the answer (it does not parse, is not a
  non-empty array, or its first element lacks a truthy \<open>foodName\<close>, a truthy \<open>reason\<close> or
  a defined \<open>familiarity\<close>), or \<open>getFoodRecommendation\<close> or \<open>generateFoodImage\<close> raises,
  the submission sets the generic error message, which is not empty, and ends in the error
  step; from there \<open>resetFromError\<close> leads to the welcome step with weather, meal time,
  preference, recommendations, rating and error all cleared, and the familiarity table as
  it was.
\<close>

theorem handlePreferencesSubmit_failure_reaches_error:
  assumes "mealTime s \<noteq> None" and "foodPreference s \<noteq> None"
    and "\<not> (\<exists>answer item others. recommendation_outcome = Responds answer
             \<and> P (text_string answer) = Some (JArr (item # others))
             \<and> spec_first_item_valid item)
         \<or> (\<exists>e. getFoodRecommendation P recommendation_outcome = Inl e)
         \<or> (\<exists>e. generateFoodImage image_outcome = Inl e)"
  shows "step (handlePreferencesSubmit P recommendation_outcome image_outcome s) = ErrorStep
       \<and> error (handlePreferencesSubmit P recommendation_outcome image_outcome s)
           = Some generic_error_message
       \<and> generic_error_message \<noteq> []
       \<and> resetFromError (handlePreferencesSubmit P recommendation_outcome image_outcome s)
           = \<lparr>step = Welcome, weather = None, mealTime = None, foodPreference = None,
              recommendations = None, error = None,
              familiarityRatings = familiarityRatings s, currentUserRating = JNull\<rparr>"
proof -
  let ?s' = "handlePreferencesSubmit P recommendation_outcome image_outcome s"
  have fails: "(\<exists>e. getFoodRecommendation P recommendation_outcome = Inl e)
         \<or> (\<exists>e. generateFoodImage image_outcome = Inl e)"
    using assms(3) unfolding getFoodRecommendation_cases
    by (auto split: generate_outcome.splits option.splits jsval.splits list.splits)
  have "\<exists>t. ?s' = submit_failed t \<and> familiarityRatings t = familiarityRatings s"
  proof (cases "getFoodRecommendation P recommendation_outcome")
    case (Inl e)
    with assms(1,2) show ?thesis
      by (auto simp: handlePreferencesSubmit_cases)
  next
    case (Inr recs)
    with fails obtain e where img: "generateFoodImage image_outcome = Inl e" by auto
    from Inr obtain item others where r: "recs = item # others"
      and v: "spec_first_item_valid item"
      using getFoodRecommendation_Inr by blast
    from v obtain kvs where k: "item = JObj kvs"
      by (cases item) (simp_all add: spec_first_item_valid_def)
    from assms(1,2) Inr img r k show ?thesis
      by (auto simp: handlePreferencesSubmit_cases)
  qed
  then obtain t where t: "?s' = submit_failed t" "familiarityRatings t = familiarityRatings s"
    by blast
  show ?thesis
    unfolding t(1) using t(2)
    by (simp add: submit_failed_def resetFromError_def generic_error_message_nonempty)
qed

lemma sample_rejects_empty:
  "\<not> (\<exists>answer item others. Responds (Some empty_array_text) = Responds answer
        \<and> JSON_parse_sample (text_string answer) = Some (JArr (item # others))
        \<and> spec_first_item_valid item)"
  using sample_parse_empty by (auto simp: text_string_def)

theorem handlePreferencesSubmit_failure_reaches_error_witness:
  "step (handlePreferencesSubmit JSON_parse_sample (Responds (Some empty_array_text))
          one_image chosen_state) = ErrorStep
   \<and> error (handlePreferencesSubmit JSON_parse_sample (Responds (Some empty_array_text))
          one_image chosen_state) = Some generic_error_message
   \<and> generic_error_message \<noteq> []
   \<and> resetFromError (handlePreferencesSubmit JSON_parse_sample
          (Responds (Some empty_array_text)) one_image chosen_state)
       = \<lparr>step = Welcome, weather = None, mealTime = None, foodPreference = None,
          recommendations = None, error = None,
          familiarityRatings = familiarityRatings chosen_state, currentUserRating = JNull\<rparr>"
  using handlePreferencesSubmit_failure_reaches_error
      [OF chosen, where P = JSON_parse_sample
        and recommendation_outcome = "Responds (Some empty_array_text)"
        and image_outcome = one_image]
    sample_rejects_empty
  by blast

text \<open>
  C10. If \<open>getFoodRecommendation\<close> succeeds and \<open>generateFoodImage\<close> then raises, the
  submission ends in the error step with the recommendations field as it was before, while
  \<open>currentUserRating\<close> is already the familiarity of the first recommendation of the failed
  attempt.
\<close>

theorem handlePreferencesSubmit_image_failure_keeps_rating:
  assumes "mealTime s \<noteq> None" and "foodPreference s \<noteq> None"
    and "getFoodRecommendation P recommendation_outcome = Inr recs"
    and "generateFoodImage image_outcome = Inl e"
  shows "\<exists>first others.
           recs = first # others
         \<and> step (handlePreferencesSubmit P recommendation_outcome image_outcome s) = ErrorStep
         \<and> recommendations (handlePreferencesSubmit P recommendation_outcome image_outcome s)
             = recommendations s
         \<and> member first (ascii ''familiarity'')
             = Inr (currentUserRating
                     (handlePreferencesSubmit P recommendation_outcome image_outcome s))"
proof -
  from assms(3) obtain item others where r: "recs = item # others"
    and v: "spec_first_item_valid item"
    using getFoodRecommendation_Inr by blast
  from v obtain kvs where k: "item = JObj kvs"
    by (cases item) (simp_all add: spec_first_item_valid_def)
  from assms r k show ?thesis
    by (simp add: handlePreferencesSubmit_cases submit_failed_def)
qed

theorem handlePreferencesSubmit_image_failure_keeps_rating_witness:
  "\<exists>first others.
     two_dishes_parsed = first # others
   \<and> step (handlePreferencesSubmit JSON_parse_sample (Responds (Some two_dishes_text))
            (ImagesRejects ApiFailure) chosen_state) = ErrorStep
   \<and> recommendations (handlePreferencesSubmit JSON_parse_sample
        (Responds (Some two_dishes_text)) (ImagesRejects ApiFailure) chosen_state)
       = recommendations chosen_state
   \<and> member first (ascii ''familiarity'')
       = Inr (currentUserRating (handlePreferencesSubmit JSON_parse_sample
               (Responds (Some two_dishes_text)) (ImagesRejects ApiFailure) chosen_state))"
  by (rule handlePreferencesSubmit_image_failure_keeps_rating
      [OF chosen sample_accepts_two sample_image_rejected])

section \<open>Saving the rating\<close>

text \<open>
  C6. When \<open>resetAndSaveRating\<close> runs with recommendations that are not empty and a rating
  that is not null, it stores the rating in the familiarity table under the first
  recommendation's food name, leaves every other entry of the table as it was, and resets
  the step to welcome and weather, meal time, preference, recommendations, rating and error
  to null; the table is not cleared.
\<close>

theorem resetAndSaveRating_saves_and_clears:
  assumes "recommendations s = Some (first # others)"
    and "currentUserRating s \<noteq> JNull"
  shows "resetAndSaveRating ToString s =
           \<lparr>step = Welcome, weather = None, mealTime = None, foodPreference = None,
            recommendations = None, error = None,
            familiarityRatings =
              (familiarityRatings s)
                (ToPropertyKey ToString (field first (ascii ''foodName'')) \<mapsto>
                   currentUserRating s),
            currentUserRating = JNull\<rparr>
       \<and> (\<forall>name. field first (ascii ''foodName'') = JStr name \<longrightarrow>
             familiarityRatings (resetAndSaveRating ToString s) name
               = Some (currentUserRating s)
           \<and> (\<forall>k. k \<noteq> name \<longrightarrow>
                 familiarityRatings (resetAndSaveRating ToString s) k
                   = familiarityRatings s k))"
  using assms by (simp add: resetAndSaveRating_def ToPropertyKey_def)

lemma rated_recommendations:
  "recommendations rated_state =
     Some (with_imageUrl (ascii ''data:image/jpeg;base64,QUJD'') 0 (hd two_dishes_parsed)
           # map (\<lambda>(index, rec). with_imageUrl (ascii ''data:image/jpeg;base64,QUJD'') index rec)
               (enumerate 1 (tl two_dishes_parsed)))"
  using chosen sample_accepts_two sample_image
  by (simp add: rated_state_def setCurrentUserRating_def handlePreferencesSubmit_cases
      two_dishes_parsed_def)

lemma rated_rating: "currentUserRating rated_state \<noteq> JNull"
   "currentUserRating rated_state = JNum (Finite 4)"
  by (simp_all add: rated_state_def setCurrentUserRating_def)

lemma rated_foodName:
  "field (with_imageUrl (ascii ''data:image/jpeg;base64,QUJD'') 0 (hd two_dishes_parsed))
     (ascii ''foodName'') = JStr (ascii ''a'')"
  unfolding with_imageUrl_field
  by (simp add: two_dishes_parsed_def field_def ascii_def)

text \<open>After the sample submission, with the slider at 4, dish \<open>a\<close> is rated 4, the entry of
  dish \<open>c\<close> is untouched and the session is cleared, whatever \<open>ToString\<close> does.\<close>

theorem resetAndSaveRating_saves_and_clears_witness:
  "\<forall>ToString.
     familiarityRatings (resetAndSaveRating ToString rated_state) (ascii ''a'') = Some (JNum (Finite 4))
   \<and> familiarityRatings (resetAndSaveRating ToString rated_state) (ascii ''c'')
       = familiarityRatings rated_state (ascii ''c'')
   \<and> step (resetAndSaveRating ToString rated_state) = Welcome
   \<and> recommendations (resetAndSaveRating ToString rated_state) = None"
proof
  fix ToString
  have "ascii ''c'' \<noteq> ascii ''a''" by (simp add: ascii_def)
  then show "familiarityRatings (resetAndSaveRating ToString rated_state) (ascii ''a'')
       = Some (JNum (Finite 4))
   \<and> familiarityRatings (resetAndSaveRating ToString rated_state) (ascii ''c'')
       = familiarityRatings rated_state (ascii ''c'')
   \<and> step (resetAndSaveRating ToString rated_state) = Welcome
   \<and> recommendations (resetAndSaveRating ToString rated_state) = None"
    using resetAndSaveRating_saves_and_clears
      [OF rated_recommendations rated_rating(1), where ToString = ToString]
      rated_foodName rated_rating(2)
    by (simp add: ToPropertyKey_def)
qed

end
